theory Spec2Isabelle
  imports Complex_Main
begin

section \<open>The CEC utilities (cec\_utils.hpp)\<close>

text \<open>
  The class \<open>CecUtils\<close> holds the coordinate transforms of the continuous suites
  (\<open>shiftfunc\<close>, \<open>rotatefunc\<close>, \<open>sr_func\<close>), the bias table (\<open>getFunctionBias\<close>) and the
  loaders of the static tables (\<open>loadMatrixData\<close>, \<open>loadOShiftData\<close>, \<open>loadShuffleData\<close>).

  Conventions of the embedding.
  \<^item> A \<open>std::vector<double>\<close> is a \<open>real list\<close>, a \<open>std::vector<int>\<close> an \<open>int list\<close>. A C++
    \<open>double\<close> is read as the real number it stands for: the theorems fix which operations
    are applied to which operands and in which order, and say nothing of rounding.
  \<^item> A C++ \<open>int\<close> is an \<open>int\<close>; the products the code forms (\<open>i * nx + j\<close>, \<open>dim * dim * coeff\<close>)
    are taken to fit the machine type, as they do for every dimension of the suites.
  \<^item> A vector passed by reference and updated in place is passed in and returned.
  \<^item> \<open>std::vector::at\<close> throws \<open>std::out_of_range\<close>; the exception is the \<open>Inl\<close> branch of
    a sum. The vector of the caller is then left as the loop had updated it so far; the
    model keeps the exception only.
  \<^item> Two kinds of read have no value defined by the language: an index outside a built-in
    array, and a local variable that was never set. The functions that can make such a
    read take the value read as one more argument (\<open>oob\<close>, \<open>stale\<close>), after the arguments
    of the source, and no theorem constrains it.
\<close>

subsection \<open>Checked and unchecked indexing\<close>

datatype error = Out_of_range

text \<open>\<open>v.at(i)\<close> as an rvalue. The \<open>int\<close> index is converted to \<open>size_t\<close>, so a negative
  one becomes a huge one and is out of range as well.\<close>

definition vec_at :: "'a list \<Rightarrow> int \<Rightarrow> error + 'a" where
  "vec_at v i = (if 0 \<le> i \<and> i < int (length v) then Inr (v ! nat i) else Inl Out_of_range)"

text \<open>\<open>v.at(i) = a\<close>: the same check, then the store.\<close>

definition vec_put :: "'a list \<Rightarrow> int \<Rightarrow> 'a \<Rightarrow> error + 'a list" where
  "vec_put v i a = (if 0 \<le> i \<and> i < int (length v) then Inr (v[nat i := a]) else Inl Out_of_range)"

text \<open>\<open>a[i]\<close> on a built-in array: no check. Inside the array it is the element; outside,
  C++ leaves the read undefined. The model does not choose what is found there: it reads
  \<open>oob\<close>, an argument of the model, so that a theorem holds for every such value.\<close>

definition raw_index :: "'a list \<Rightarrow> int \<Rightarrow> 'a \<Rightarrow> 'a" where
  "raw_index a i oob = (if 0 \<le> i \<and> i < int (length a) then a ! nat i else oob)"

subsection \<open>shiftfunc\<close>

text \<open>\<^verbatim>\<open>for (int i = 0; i < nx; i++) x.at(i) = x.at(i) - Os.at(i);\<close>\<close>

function shiftfunc_for :: "int \<Rightarrow> real list \<Rightarrow> real list \<Rightarrow> int \<Rightarrow> error + real list" where
  "shiftfunc_for i x Os nx =
     (if i < nx then
        (case vec_at x i of Inl e \<Rightarrow> Inl e | Inr xi \<Rightarrow>
        (case vec_at Os i of Inl e \<Rightarrow> Inl e | Inr oi \<Rightarrow>
        (case vec_put x i (xi - oi) of Inl e \<Rightarrow> Inl e | Inr x' \<Rightarrow>
         shiftfunc_for (i + 1) x' Os nx)))
      else Inr x)"
  by pat_completeness auto
termination
  by (relation "measure (\<lambda>(i, x, Os, nx). nat (nx - i))") auto

definition shiftfunc :: "real list \<Rightarrow> real list \<Rightarrow> int \<Rightarrow> error + real list" where
  "shiftfunc x Os nx = shiftfunc_for 0 x Os nx"

subsection \<open>rotatefunc\<close>

text \<open>The inner loop,
  \<^verbatim>\<open>for (int j = 0; j < nx; j++) x.at(i) = x.at(i) + cacheX.at(j) * Mr.at(i * nx + j);\<close>\<close>

function rotatefunc_for_j ::
  "int \<Rightarrow> int \<Rightarrow> real list \<Rightarrow> real list \<Rightarrow> real list \<Rightarrow> int \<Rightarrow> error + real list" where
  "rotatefunc_for_j j i x cacheX Mr nx =
     (if j < nx then
        (case vec_at x i of Inl e \<Rightarrow> Inl e | Inr xi \<Rightarrow>
        (case vec_at cacheX j of Inl e \<Rightarrow> Inl e | Inr cj \<Rightarrow>
        (case vec_at Mr (i * nx + j) of Inl e \<Rightarrow> Inl e | Inr m \<Rightarrow>
        (case vec_put x i (xi + cj * m) of Inl e \<Rightarrow> Inl e | Inr x' \<Rightarrow>
         rotatefunc_for_j (j + 1) i x' cacheX Mr nx))))
      else Inr x)"
  by pat_completeness auto
termination
  by (relation "measure (\<lambda>(j, i, x, cacheX, Mr, nx). nat (nx - j))") auto

text \<open>The outer loop: \<^verbatim>\<open>for (int i = 0; i < nx; i++) { x.at(i) = 0; <inner loop> }\<close>\<close>

function rotatefunc_for_i ::
  "int \<Rightarrow> real list \<Rightarrow> real list \<Rightarrow> real list \<Rightarrow> int \<Rightarrow> error + real list" where
  "rotatefunc_for_i i x cacheX Mr nx =
     (if i < nx then
        (case vec_put x i 0 of Inl e \<Rightarrow> Inl e | Inr x0 \<Rightarrow>
        (case rotatefunc_for_j 0 i x0 cacheX Mr nx of Inl e \<Rightarrow> Inl e | Inr x' \<Rightarrow>
         rotatefunc_for_i (i + 1) x' cacheX Mr nx))
      else Inr x)"
  by pat_completeness auto
termination
  by (relation "measure (\<lambda>(i, x, cacheX, Mr, nx). nat (nx - i))") auto

text \<open>\<open>std::vector<double> cacheX(x)\<close> copies the vector before the loops change it.\<close>

definition rotatefunc :: "real list \<Rightarrow> real list \<Rightarrow> int \<Rightarrow> error + real list" where
  "rotatefunc x Mr nx = (let cacheX = x in rotatefunc_for_i 0 x cacheX Mr nx)"

subsection \<open>sr\_func\<close>

text \<open>\<^verbatim>\<open>for (int i = 0; i < nx; i++) x.at(i) = x.at(i) * sh_rate;\<close>\<close>

function sr_func_for :: "int \<Rightarrow> real list \<Rightarrow> real \<Rightarrow> int \<Rightarrow> error + real list" where
  "sr_func_for i x sh_rate nx =
     (if i < nx then
        (case vec_at x i of Inl e \<Rightarrow> Inl e | Inr xi \<Rightarrow>
        (case vec_put x i (xi * sh_rate) of Inl e \<Rightarrow> Inl e | Inr x' \<Rightarrow>
         sr_func_for (i + 1) x' sh_rate nx))
      else Inr x)"
  by pat_completeness auto
termination
  by (relation "measure (\<lambda>(i, x, sh_rate, nx). nat (nx - i))") auto

definition sr_func ::
  "real list \<Rightarrow> real list \<Rightarrow> real list \<Rightarrow> real \<Rightarrow> bool \<Rightarrow> bool \<Rightarrow> int \<Rightarrow> error + real list" where
  "sr_func x Os Mr sh_rate s_flag r_flag nx =
     (case (if s_flag then shiftfunc x Os nx else Inr x) of Inl e \<Rightarrow> Inl e | Inr x1 \<Rightarrow>
     (case sr_func_for 0 x1 sh_rate nx of Inl e \<Rightarrow> Inl e | Inr x2 \<Rightarrow>
      if r_flag then rotatefunc x2 Mr nx else Inr x2))"

text \<open>The loops are unfolded by hand, one iteration at a time, never by the simplifier.\<close>

declare shiftfunc_for.simps [simp del] rotatefunc_for_j.simps [simp del]
  rotatefunc_for_i.simps [simp del] sr_func_for.simps [simp del]

subsection \<open>The transform chain as the specification words it\<close>

text \<open>
  The specification describes \<open>sr_func\<close> as three steps on the first \<open>nx\<close> coordinates:
  an optional elementwise subtraction of the shift, a multiplication of every coordinate
  by the shrink rate, and an optional product with the row-major matrix. The three steps
  are written here as maps over the positions of the vector, with no loop and no check,
  to be compared with the loops above.
\<close>

definition spec_shift :: "real list \<Rightarrow> real list \<Rightarrow> int \<Rightarrow> real list" where
  "spec_shift x Os nx = map (\<lambda>i. if int i < nx then x ! i - Os ! i else x ! i) [0..<length x]"

definition spec_scale :: "real list \<Rightarrow> real \<Rightarrow> int \<Rightarrow> real list" where
  "spec_scale x sh_rate nx = map (\<lambda>i. if int i < nx then x ! i * sh_rate else x ! i) [0..<length x]"

definition spec_rotate :: "real list \<Rightarrow> real list \<Rightarrow> int \<Rightarrow> real list" where
  "spec_rotate x Mr nx =
     map (\<lambda>i. if int i < nx then (\<Sum>j\<leftarrow>[0..<nat nx]. x ! j * Mr ! (i * nat nx + j)) else x ! i)
       [0..<length x]"

definition spec_sr ::
  "real list \<Rightarrow> real list \<Rightarrow> real list \<Rightarrow> real \<Rightarrow> bool \<Rightarrow> bool \<Rightarrow> int \<Rightarrow> real list" where
  "spec_sr x Os Mr sh_rate s_flag r_flag nx =
     (let x1 = (if s_flag then spec_shift x Os nx else x);
          x2 = spec_scale x1 sh_rate nx
      in if r_flag then spec_rotate x2 Mr nx else x2)"

subsection \<open>getFunctionBias\<close>

definition fnBiasDict :: "real list" where
  "fnBiasDict = [100, 1100, 700, 1900, 1700, 1600, 2100, 2200, 2400, 2500]"

definition getFunctionBias :: "int \<Rightarrow> int \<Rightarrow> real \<Rightarrow> real" where
  "getFunctionBias biasFlag fnNumber oob =
     (if biasFlag \<noteq> 0 then raw_index fnBiasDict (fnNumber - 1) oob else 0)"

section \<open>The loaders of the static tables (cec\_utils.hpp)\<close>

subsection \<open>File names\<close>

text \<open>The dimension \<open>dim\<close> of the source is written \<open>dim'\<close>: \<open>dim\<close> is a constant of the
  library.\<close>

text \<open>\<open>std::to_string\<close> of an \<open>int\<close>: the decimal digits, after a minus sign when negative.\<close>

function string_of_nat :: "nat \<Rightarrow> string" where
  "string_of_nat n =
     (if n < 10 then [''0123456789'' ! n]
      else string_of_nat (n div 10) @ [''0123456789'' ! (n mod 10)])"
  by pat_completeness auto
termination
  by (relation "measure (\<lambda>n. n)") auto

declare string_of_nat.simps [simp del]

definition to_string :: "int \<Rightarrow> string" where
  "to_string i = (if i < 0 then CHR ''-'' # string_of_nat (nat (- i)) else string_of_nat (nat i))"

text \<open>The three names, as the string streams of the loaders build them.\<close>

definition M_FileName :: "string \<Rightarrow> int \<Rightarrow> int \<Rightarrow> int \<Rightarrow> string" where
  "M_FileName dataPath cecVersion fn dim' =
     dataPath @ ''/cec'' @ to_string cecVersion @ ''/M_'' @ to_string fn @ ''_D'' @
     to_string dim' @ ''.txt''"

definition shift_data_FileName :: "string \<Rightarrow> int \<Rightarrow> int \<Rightarrow> string" where
  "shift_data_FileName dataPath cecVersion fn =
     dataPath @ ''/cec'' @ to_string cecVersion @ ''/shift_data_'' @ to_string fn @ ''.txt''"

definition shuffle_data_FileName :: "string \<Rightarrow> int \<Rightarrow> int \<Rightarrow> int \<Rightarrow> string" where
  "shuffle_data_FileName dataPath cecVersion fn dim' =
     dataPath @ ''/cec'' @ to_string cecVersion @ ''/shuffle_data_'' @ to_string fn @ ''_D'' @
     to_string dim' @ ''.txt''"

subsection \<open>Input file streams\<close>

text \<open>
  The text of a file is kept as the sequence of what the extraction of a \<open>double\<close> meets
  in it: a numeral, with the value it converts to; a whitespace character; or a
  character at which no numeral starts. A file system gives the text of each file that
  can be opened for reading, and \<open>None\<close> for a name that cannot.
\<close>

datatype item = Numeral real | Space | Other

type_synonym filesystem = "string \<Rightarrow> item list option"

text \<open>A \<open>std::ifstream\<close>: the text not read yet and the two state bits the loaders depend
  on. The stream is \<open>good\<close> when neither is set; \<open>!stream\<close> is \<open>fail()\<close>.\<close>

record ifstream =
  unread :: "item list"
  eofbit :: bool
  failbit :: bool

definition good :: "ifstream \<Rightarrow> bool" where
  "good s = (\<not> eofbit s \<and> \<not> failbit s)"

text \<open>\<open>open\<close> on a fresh stream: \<open>failbit\<close> is set when the file cannot be opened.\<close>

definition ifstream_open :: "filesystem \<Rightarrow> string \<Rightarrow> ifstream" where
  "ifstream_open fs FileName =
     (case fs FileName of
        None \<Rightarrow> \<lparr>unread = [], eofbit = False, failbit = True\<rparr>
      | Some text \<Rightarrow> \<lparr>unread = text, eofbit = False, failbit = False\<rparr>)"

text \<open>
  \<open>peek()\<close>: on a stream that is not good it sets \<open>failbit\<close> and returns \<open>EOF\<close> (\<open>None\<close>);
  on a good stream it returns the next character without reading it, or sets \<open>eofbit\<close>
  and returns \<open>EOF\<close> when there is none. Whitespace is a character like any other here.
\<close>

definition peek :: "ifstream \<Rightarrow> item option \<times> ifstream" where
  "peek s =
     (if good s then
        (case unread s of
           [] \<Rightarrow> (None, s\<lparr>eofbit := True\<rparr>)
         | c # rest \<Rightarrow> (Some c, s))
      else (None, s\<lparr>failbit := True\<rparr>))"

text \<open>
  \<open>stream >> d\<close> on a good stream, by the text not read yet. Leading whitespace is
  skipped. If the text ends there, \<open>eofbit\<close> and \<open>failbit\<close> are set and nothing is stored
  in \<open>d\<close> (the result \<open>None\<close>). A numeral is read and its value stored; \<open>eofbit\<close> is set
  when the numeral is the last thing in the file, since the conversion reads up to the
  end. At any other character the conversion fails: \<open>failbit\<close> is set and 0 is stored
  (the rule since C++11). The result is the value stored if any, the text left, and the
  two bits.
\<close>

fun get_double :: "item list \<Rightarrow> real option \<times> item list \<times> bool \<times> bool" where
  "get_double [] = (None, [], True, True)"
| "get_double (Space # rest) = get_double rest"
| "get_double (Numeral v # rest) = (Some v, rest, rest = [], False)"
| "get_double (Other # rest) = (Some 0, Other # rest, False, True)"

text \<open>\<open>operator>>\<close>: on a stream that is not good it sets \<open>failbit\<close> and stores nothing.\<close>

definition extract_double :: "ifstream \<Rightarrow> real option \<times> ifstream" where
  "extract_double s =
     (if good s then
        (case get_double (unread s) of
           (d, rest, eof, fail) \<Rightarrow> (d, \<lparr>unread = rest, eofbit = eof, failbit = fail\<rparr>))
      else (None, s\<lparr>failbit := True\<rparr>))"

subsection \<open>The reading loop\<close>

text \<open>
  The three loaders end in the same loop, here for \<open>loadMatrixData\<close>:
  \<^verbatim>\<open>
  for (int i = 0; i < MatrixSize; ++i) {
      if (fptMData.peek() == EOF) break;
      double matrixData;
      fptMData >> matrixData;
      Mr->push_back(matrixData);
  }
  \<close>
  The local \<open>matrixData\<close> has no initialiser. When the extraction stores nothing, what
  \<open>push_back\<close> copies is not defined by the language; the model takes it as the argument
  \<open>stale\<close>. The argument \<open>conv\<close> is the conversion to the element type of the vector:
  none for the two vectors of \<open>double\<close>, the truncation of \<open>loadShuffleData\<close> for its vector
  of \<open>int\<close>.
\<close>

function read_for ::
  "(real \<Rightarrow> 'a) \<Rightarrow> int \<Rightarrow> int \<Rightarrow> ifstream \<Rightarrow> 'a list \<Rightarrow> real \<Rightarrow> 'a list \<times> ifstream" where
  "read_for conv i Size fpt v stale =
     (if i < Size then
        (case peek fpt of
           (None, fpt1) \<Rightarrow> (v, fpt1)
         | (Some c, fpt1) \<Rightarrow>
             (case extract_double fpt1 of
                (d, fpt2) \<Rightarrow>
                  read_for conv (i + 1) Size fpt2
                    (v @ [conv (case d of Some a \<Rightarrow> a | None \<Rightarrow> stale)]) stale))
      else (v, fpt))"
  by pat_completeness auto
termination
  by (relation "measure (\<lambda>(conv, i, Size, fpt, v, stale). nat (Size - i))") auto

declare read_for.simps [simp del]

text \<open>The conversion of a \<open>double\<close> to an \<open>int\<close> in \<open>SS->push_back(shuffleData)\<close> drops the
  fraction.\<close>

definition double_to_int :: "real \<Rightarrow> int" where
  "double_to_int d = (if 0 \<le> d then \<lfloor>d\<rfloor> else \<lceil>d\<rceil>)"

subsection \<open>loadMatrixData\<close>

definition cf_nums :: "int list" where
  "cf_nums = [0, 1, 1, 1, 1, 1, 1, 1, 1, 3, 3, 5, 5, 5, 7, 10]"

text \<open>The version switch of \<open>loadMatrixData\<close>: \<open>(funcTreshold, coeff)\<close>.\<close>

definition Matrix_funcTreshold_coeff :: "int \<Rightarrow> int \<Rightarrow> int \<Rightarrow> int \<times> int" where
  "Matrix_funcTreshold_coeff cecVersion fn oob =
     (if cecVersion = 2014 then (23, 10)
      else if cecVersion = 2015 then (- 1, raw_index cf_nums fn oob)
      else if cecVersion = 2017 then (20, 10)
      else if cecVersion = 2019 then (100, 1)
      else if cecVersion = 2021 then (7, 10)
      else if cecVersion = 2022 then (9, 12)
      else (- 1, - 1))"

definition MatrixSize :: "int \<Rightarrow> int \<Rightarrow> int \<Rightarrow> int \<Rightarrow> int" where
  "MatrixSize dim' fn cecVersion oob =
     (case Matrix_funcTreshold_coeff cecVersion fn oob of
        (funcTreshold, coeff) \<Rightarrow> if fn < funcTreshold then dim' * dim' else dim' * dim' * coeff)"

text \<open>
  A loader returns its vector and the lines it writes to the standard streams
  (\<open>perror\<close> adds the system's text for \<open>errno\<close> to its line; the model keeps the text the
  code gives). It has no other outcome: it returns \<open>void\<close>, throws nothing and ends by
  closing the stream.
\<close>

definition loadMatrixData ::
  "filesystem \<Rightarrow> real list \<Rightarrow> string \<Rightarrow> int \<Rightarrow> int \<Rightarrow> int \<Rightarrow> int \<Rightarrow> real \<Rightarrow>
   real list \<times> string list" where
  "loadMatrixData fs Mr dataPath dim' fn cecVersion oob stale =
     (let FileName = M_FileName dataPath cecVersion fn dim';
          fptMData = ifstream_open fs FileName;
          out = (if failbit fptMData
                 then [FileName, ''Error: Cannot open input file for reading''] else [])
      in (fst (read_for (\<lambda>d. d) 0 (MatrixSize dim' fn cecVersion oob) fptMData Mr stale), out))"

subsection \<open>loadOShiftData\<close>

text \<open>The version switch of \<open>loadOShiftData\<close>. Both variables start at 0; the branch of
  2015 sets \<open>coeff\<close> only, and there is no branch for 2021.\<close>

definition OShift_funcTreshold_coeff :: "int \<Rightarrow> int \<Rightarrow> int \<Rightarrow> int \<times> int" where
  "OShift_funcTreshold_coeff cecVersion fn oob =
     (if cecVersion = 2014 then (23, 10)
      else if cecVersion = 2015 then (0, raw_index cf_nums fn oob)
      else if cecVersion = 2017 then (20, 10)
      else if cecVersion = 2019 then (100, 1)
      else if cecVersion = 2022 then (9, 12)
      else (- 1, - 1))"

definition OShiftSize :: "int \<Rightarrow> int \<Rightarrow> int \<Rightarrow> int \<Rightarrow> int" where
  "OShiftSize dim' fn cecVersion oob =
     (case OShift_funcTreshold_coeff cecVersion fn oob of
        (funcTreshold, coeff) \<Rightarrow> if fn < funcTreshold then dim' else coeff * dim')"

text \<open>The loop stands under \<open>if (fn < funcTreshold)\<close>; the other branch is commented out
  in the source, so nothing is read there.\<close>

definition loadOShiftData ::
  "filesystem \<Rightarrow> real list \<Rightarrow> string \<Rightarrow> int \<Rightarrow> int \<Rightarrow> int \<Rightarrow> int \<Rightarrow> real \<Rightarrow>
   real list \<times> string list" where
  "loadOShiftData fs Os dataPath dim' fn cecVersion oob stale =
     (let FileName = shift_data_FileName dataPath cecVersion fn;
          fptOShiftData = ifstream_open fs FileName;
          out = (if failbit fptOShiftData
                 then [''Error: Cannot open input file for reading''] else [])
      in (if fn < fst (OShift_funcTreshold_coeff cecVersion fn oob)
          then fst (read_for (\<lambda>d. d) 0 (OShiftSize dim' fn cecVersion oob) fptOShiftData Os stale)
          else Os,
          out))"

subsection \<open>loadShuffleData\<close>

definition Shuffle_coeff :: "int \<Rightarrow> int \<Rightarrow> int \<Rightarrow> int" where
  "Shuffle_coeff cecVersion fn oob =
     (if cecVersion = 2014 \<or> cecVersion = 2017 \<or> cecVersion = 2019 \<or> cecVersion = 2021 \<or>
         cecVersion = 2022 then 10
      else if cecVersion = 2015 then raw_index cf_nums fn oob
      else 0)"

definition shuffleFlag :: "int \<Rightarrow> int \<Rightarrow> int" where
  "shuffleFlag cecVersion fn =
     (if cecVersion = 2014 then (if 17 \<le> fn \<and> fn \<le> 22 then 1 else 0)
      else if cecVersion = 2015 then 0
      else if cecVersion = 2017 then (if 11 \<le> fn \<and> fn \<le> 20 then 1 else 0)
      else if cecVersion = 2021 then (if 5 \<le> fn \<and> fn \<le> 7 then 1 else 0)
      else if cecVersion = 2022 then (if 6 \<le> fn \<and> fn \<le> 8 then 1 else 0)
      else 0)"

definition ShuffleSize :: "int \<Rightarrow> int \<Rightarrow> int \<Rightarrow> int \<Rightarrow> int" where
  "ShuffleSize dim' fn cecVersion oob =
     (if shuffleFlag cecVersion fn \<noteq> 0 then dim' else Shuffle_coeff cecVersion fn oob * dim')"

definition loadShuffleData ::
  "filesystem \<Rightarrow> int list \<Rightarrow> string \<Rightarrow> int \<Rightarrow> int \<Rightarrow> int \<Rightarrow> int \<Rightarrow> real \<Rightarrow>
   int list \<times> string list" where
  "loadShuffleData fs SS dataPath dim' fn cecVersion oob stale =
     (let FileName = shuffle_data_FileName dataPath cecVersion fn dim';
          fptShuffleData = ifstream_open fs FileName;
          out = (if failbit fptShuffleData
                 then [''Error: Cannot open input file for reading''] else [])
      in (fst (read_for double_to_int 0 (ShuffleSize dim' fn cecVersion oob) fptShuffleData SS stale),
          out))"

subsection \<open>What a whole file delivers\<close>

text \<open>
  Two readings of a text, used to state what the loaders append. \<open>numerals\<close> are the
  values written in the file. \<open>delivered\<close> is what the reading loop pushes when the count
  does not stop it: the numerals up to the first character that is neither a numeral nor
  whitespace, where it pushes the 0 of the failed conversion and stops; and when the
  text ends in whitespace, one more element after the last numeral, the unset local.
\<close>

fun numerals :: "item list \<Rightarrow> real list" where
  "numerals [] = []"
| "numerals (Numeral v # rest) = v # numerals rest"
| "numerals (c # rest) = numerals rest"

fun delivered :: "real \<Rightarrow> item list \<Rightarrow> real list" where
  "delivered stale [] = []"
| "delivered stale (Numeral v # rest) = v # delivered stale rest"
| "delivered stale (Other # rest) = [0]"
| "delivered stale [Space] = [stale]"
| "delivered stale (Space # rest) = delivered stale rest"

section \<open>The query schema of the server (IOHquery)\<close>

subsection \<open>JSON values and JSON Schema\<close>

text \<open>
  The schema is a YAML document in JSON Schema, draft 07. The embedding has the JSON
  values, the keywords that the schema uses, and the validation of an instance against
  a schema as the draft defines it: a schema is a set of keywords, and an instance is
  valid when every keyword accepts it. \<open>properties\<close>, \<open>required\<close>, \<open>items\<close> and \<open>minItems\<close>
  constrain objects, resp. arrays, and accept every other instance; \<open>if\<close> with \<open>then\<close>
  asks for the second schema where the first one holds; \<open>format\<close> is an annotation, and
  so are the keywords the draft does not know (\<open>id\<close>) or that describe the schema
  itself (\<open>$schema\<close>).
\<close>

datatype json =
    JNull
  | JBool bool
  | JNumber rat
  | JString string
  | JArray "json list"
  | JObject "(string \<times> json) list"

datatype jtype = T_null | T_boolean | T_number | T_integer | T_string | T_array | T_object

datatype keyword =
    KType jtype
  | KEnum "json list"
  | KConst json
  | KProperties "(string \<times> schema) list"
  | KRequired "string list"
  | KItems schema
  | KMinItems nat
  | KIfThen schema schema
  | KFormat string
  | KIgnored string
and schema = Schema "keyword list"

fun has_type :: "jtype \<Rightarrow> json \<Rightarrow> bool" where
  "has_type T_null j = (j = JNull)"
| "has_type T_boolean j = (case j of JBool b \<Rightarrow> True | _ \<Rightarrow> False)"
| "has_type T_number j = (case j of JNumber r \<Rightarrow> True | _ \<Rightarrow> False)"
| "has_type T_integer j = (case j of JNumber r \<Rightarrow> of_int \<lfloor>r\<rfloor> = r | _ \<Rightarrow> False)"
| "has_type T_string j = (case j of JString s \<Rightarrow> True | _ \<Rightarrow> False)"
| "has_type T_array j = (case j of JArray vs \<Rightarrow> True | _ \<Rightarrow> False)"
| "has_type T_object j = (case j of JObject ms \<Rightarrow> True | _ \<Rightarrow> False)"

fun valid :: "schema \<Rightarrow> json \<Rightarrow> bool"
  and valid_kw :: "keyword \<Rightarrow> json \<Rightarrow> bool" where
  "valid (Schema kws) j = list_all (\<lambda>k. valid_kw k j) kws"
| "valid_kw (KType t) j = has_type t j"
| "valid_kw (KEnum vs) j = (j \<in> set vs)"
| "valid_kw (KConst v) j = (j = v)"
| "valid_kw (KProperties ps) j =
     (case j of
        JObject ms \<Rightarrow>
          list_all (\<lambda>(name, sub). case map_of ms name of None \<Rightarrow> True | Some v \<Rightarrow> valid sub v) ps
      | _ \<Rightarrow> True)"
| "valid_kw (KRequired names) j =
     (case j of JObject ms \<Rightarrow> list_all (\<lambda>name. map_of ms name \<noteq> None) names | _ \<Rightarrow> True)"
| "valid_kw (KItems sub) j = (case j of JArray vs \<Rightarrow> list_all (valid sub) vs | _ \<Rightarrow> True)"
| "valid_kw (KMinItems n) j = (case j of JArray vs \<Rightarrow> n \<le> length vs | _ \<Rightarrow> True)"
| "valid_kw (KIfThen i t) j = (if valid i j then valid t j else True)"
| "valid_kw (KFormat f) j = True"
| "valid_kw (KIgnored a) j = True"

subsection \<open>The schema\<close>

text \<open>
  The document, key by key. In the file, \<open>if\<close> and \<open>then\<close> are indented under
  \<open>properties\<close>, at the level of \<open>query_type\<close>, \<open>id\<close>, \<open>timestamp\<close> and \<open>remarks\<close>: they are
  two more entries of the map of properties, for members named \<open>if\<close> and \<open>then\<close>, and not
  the keywords of the object schema. Likewise \<open>minItems\<close> stands inside the schema of
  the items, beside \<open>type: number\<close>, not beside \<open>items\<close>.
\<close>

definition IOHquery :: schema where
  "IOHquery = Schema
     [KIgnored ''$schema'', KIgnored ''id'',
      KType T_object,
      KProperties
        [(''query_type'',
            Schema [KType T_string,
                    KEnum [JString ''call'', JString ''new_run'', JString ''stop'']]),
         (''if'', Schema [KProperties [(''query_type'', Schema [KConst (JString ''call'')])]]),
         (''then'',
            Schema [KProperties
                      [(''solution'',
                          Schema [KType T_array,
                                  KItems (Schema [KType T_number, KMinItems 1])])],
                    KRequired [''solution'']]),
         (''id'', Schema [KType T_integer]),
         (''timestamp'', Schema [KType T_string, KFormat ''date-time'']),
         (''remarks'', Schema [KType T_string])],
      KRequired [''query_type'']]"

text \<open>
  The schema that the comments of the file describe (\<^verbatim>\<open>If query_type == "call"\<close>,
  \<^verbatim>\<open>Require the "solution" property\<close>, \<^verbatim>\<open>Dimension should be > 0\<close>): the
  condition is a keyword of the object schema and \<open>minItems\<close> a keyword of the array. It
  is not what the file holds; it is here to be compared with it.
\<close>

definition IOHquery_as_commented :: schema where
  "IOHquery_as_commented = Schema
     [KIgnored ''$schema'', KIgnored ''id'',
      KType T_object,
      KProperties
        [(''query_type'',
            Schema [KType T_string,
                    KEnum [JString ''call'', JString ''new_run'', JString ''stop'']]),
         (''id'', Schema [KType T_integer]),
         (''timestamp'', Schema [KType T_string, KFormat ''date-time'']),
         (''remarks'', Schema [KType T_string])],
      KIfThen
        (Schema [KProperties [(''query_type'', Schema [KConst (JString ''call'')])]])
        (Schema [KProperties
                   [(''solution'',
                       Schema [KType T_array, KItems (Schema [KType T_number]), KMinItems 1])],
                 KRequired [''solution'']]),
      KRequired [''query_type'']]"

section \<open>Properties of the coordinate transforms\<close>

subsection \<open>Each loop, run from any counter\<close>

lemma error_is [simp]: "(e::error) = Out_of_range"
  by (cases e) simp

lemma vec_at_in: "0 \<le> i \<Longrightarrow> i < int (length v) \<Longrightarrow> vec_at v i = Inr (v ! nat i)"
  by (simp add: vec_at_def)

lemma vec_put_in: "0 \<le> i \<Longrightarrow> i < int (length v) \<Longrightarrow> vec_put v i a = Inr (v[nat i := a])"
  by (simp add: vec_put_def)

lemma vec_at_out: "\<not> (0 \<le> i \<and> i < int (length v)) \<Longrightarrow> vec_at v i = Inl Out_of_range"
  by (simp add: vec_at_def)

lemma vec_put_out: "\<not> (0 \<le> i \<and> i < int (length v)) \<Longrightarrow> vec_put v i a = Inl Out_of_range"
  by (simp add: vec_put_def)

lemma shiftfunc_for_ok:
  "0 \<le> i \<Longrightarrow> nx \<le> int (length x) \<Longrightarrow> nx \<le> int (length Os) \<Longrightarrow>
   shiftfunc_for i x Os nx =
     Inr (map (\<lambda>k. if i \<le> int k \<and> int k < nx then x ! k - Os ! k else x ! k) [0..<length x])"
proof (induction i x Os nx rule: shiftfunc_for.induct)
  case (1 i x Os nx)
  show ?case
  proof (cases "i < nx")
    case False
    then show ?thesis
      by (subst shiftfunc_for.simps) (auto intro!: nth_equalityI)
  next
    case True
    let ?x' = "x[nat i := x ! nat i - Os ! nat i]"
    have a: "vec_at x i = Inr (x ! nat i)" and b: "vec_at Os i = Inr (Os ! nat i)"
      and c: "vec_put x i (x ! nat i - Os ! nat i) = Inr ?x'"
      using True "1.prems" by (simp_all add: vec_at_in vec_put_in)
    have ih: "shiftfunc_for (i + 1) ?x' Os nx =
        Inr (map (\<lambda>k. if i + 1 \<le> int k \<and> int k < nx then ?x' ! k - Os ! k else ?x' ! k)
               [0..<length ?x'])"
      using "1.IH" [OF True a b c] "1.prems" by simp
    have "shiftfunc_for i x Os nx = shiftfunc_for (i + 1) ?x' Os nx"
      by (subst shiftfunc_for.simps) (simp add: True a b c)
    also note ih
    also have "map (\<lambda>k. if i + 1 \<le> int k \<and> int k < nx then ?x' ! k - Os ! k else ?x' ! k)
               [0..<length ?x'] =
       map (\<lambda>k. if i \<le> int k \<and> int k < nx then x ! k - Os ! k else x ! k) [0..<length x]"
      using True "1.prems" by (auto intro!: nth_equalityI simp: nth_list_update)
    finally show ?thesis .
  qed
qed


lemma sr_func_for_ok:
  "0 \<le> i \<Longrightarrow> nx \<le> int (length x) \<Longrightarrow>
   sr_func_for i x sh_rate nx =
     Inr (map (\<lambda>k. if i \<le> int k \<and> int k < nx then x ! k * sh_rate else x ! k) [0..<length x])"
proof (induction i x sh_rate nx rule: sr_func_for.induct)
  case (1 i x sh_rate nx)
  show ?case
  proof (cases "i < nx")
    case False
    then show ?thesis
      by (subst sr_func_for.simps) (auto intro!: nth_equalityI)
  next
    case True
    let ?x' = "x[nat i := x ! nat i * sh_rate]"
    have a: "vec_at x i = Inr (x ! nat i)"
      and c: "vec_put x i (x ! nat i * sh_rate) = Inr ?x'"
      using True "1.prems" by (simp_all add: vec_at_in vec_put_in)
    have ih: "sr_func_for (i + 1) ?x' sh_rate nx =
        Inr (map (\<lambda>k. if i + 1 \<le> int k \<and> int k < nx then ?x' ! k * sh_rate else ?x' ! k)
               [0..<length ?x'])"
      using "1.IH" [OF True a c] "1.prems" by simp
    have "sr_func_for i x sh_rate nx = sr_func_for (i + 1) ?x' sh_rate nx"
      by (subst sr_func_for.simps) (simp add: True a c)
    also note ih
    also have "map (\<lambda>k. if i + 1 \<le> int k \<and> int k < nx then ?x' ! k * sh_rate else ?x' ! k)
               [0..<length ?x'] =
       map (\<lambda>k. if i \<le> int k \<and> int k < nx then x ! k * sh_rate else x ! k) [0..<length x]"
      using True "1.prems" by (auto intro!: nth_equalityI simp: nth_list_update)
    finally show ?thesis .
  qed
qed

lemma rotatefunc_for_j_ok:
  "0 \<le> j \<Longrightarrow> 0 \<le> i \<Longrightarrow> i < int (length x) \<Longrightarrow> nx \<le> int (length cacheX) \<Longrightarrow>
   i * nx + nx \<le> int (length Mr) \<Longrightarrow>
   rotatefunc_for_j j i x cacheX Mr nx =
     Inr (x[nat i := x ! nat i +
            (\<Sum>k\<leftarrow>[nat j..<nat nx]. cacheX ! k * Mr ! (nat i * nat nx + k))])"
proof (induction j i x cacheX Mr nx rule: rotatefunc_for_j.induct)
  case (1 j i x cacheX Mr nx)
  show ?case
  proof (cases "j < nx")
    case False
    then have "[nat j..<nat nx] = []" by simp
    with False show ?thesis
      by (subst rotatefunc_for_j.simps) simp
  next
    case True
    let ?m = "Mr ! (nat i * nat nx + nat j)"
    let ?x' = "x[nat i := x ! nat i + cacheX ! nat j * ?m]"
    have idx: "nat (i * nx + j) = nat i * nat nx + nat j"
      using True "1.prems" by (simp add: nat_add_distrib nat_mult_distrib)
    have "i * nx + j < i * nx + nx" using True by simp
    then have inr: "0 \<le> i * nx + j" "i * nx + j < int (length Mr)"
      using True "1.prems" by auto
    have a: "vec_at x i = Inr (x ! nat i)"
      and b: "vec_at cacheX j = Inr (cacheX ! nat j)"
      and c: "vec_at Mr (i * nx + j) = Inr ?m"
      and d: "vec_put x i (x ! nat i + cacheX ! nat j * ?m) = Inr ?x'"
      using True "1.prems" inr by (simp_all add: vec_at_in vec_put_in idx)
    have ih: "rotatefunc_for_j (j + 1) i ?x' cacheX Mr nx =
        Inr (?x'[nat i := ?x' ! nat i +
            (\<Sum>k\<leftarrow>[nat (j + 1)..<nat nx]. cacheX ! k * Mr ! (nat i * nat nx + k))])"
      using "1.IH" [OF True a b c d] "1.prems" by simp
    have upt: "[nat j..<nat nx] = nat j # [nat (j + 1)..<nat nx]"
      using True "1.prems" by (simp add: upt_conv_Cons nat_add_distrib)
    have "rotatefunc_for_j j i x cacheX Mr nx = rotatefunc_for_j (j + 1) i ?x' cacheX Mr nx"
      by (subst rotatefunc_for_j.simps) (simp add: True a b c d)
    also note ih
    also have "?x'[nat i := ?x' ! nat i +
            (\<Sum>k\<leftarrow>[nat (j + 1)..<nat nx]. cacheX ! k * Mr ! (nat i * nat nx + k))] =
        x[nat i := x ! nat i +
            (\<Sum>k\<leftarrow>[nat j..<nat nx]. cacheX ! k * Mr ! (nat i * nat nx + k))]"
      using "1.prems" by (simp add: upt add.assoc)
    finally show ?thesis .
  qed
qed

lemma rotatefunc_for_i_ok:
  "0 \<le> i \<Longrightarrow> nx \<le> int (length x) \<Longrightarrow> nx \<le> int (length cacheX) \<Longrightarrow>
   nx * nx \<le> int (length Mr) \<Longrightarrow>
   rotatefunc_for_i i x cacheX Mr nx =
     Inr (map (\<lambda>k. if i \<le> int k \<and> int k < nx
                    then (\<Sum>j\<leftarrow>[0..<nat nx]. cacheX ! j * Mr ! (k * nat nx + j))
                    else x ! k) [0..<length x])"
proof (induction i x cacheX Mr nx rule: rotatefunc_for_i.induct)
  case (1 i x cacheX Mr nx)
  show ?case
  proof (cases "i < nx")
    case False
    then show ?thesis
      by (subst rotatefunc_for_i.simps) (auto intro!: nth_equalityI)
  next
    case True
    let ?row = "\<lambda>k. (\<Sum>j\<leftarrow>[0..<nat nx]. cacheX ! j * Mr ! (k * nat nx + j))"
    let ?x0 = "x[nat i := 0]"
    let ?x' = "x[nat i := ?row (nat i)]"
    have "(i + 1) * nx \<le> nx * nx"
      using True "1.prems" by (intro mult_right_mono) auto
    then have rows: "i * nx + nx \<le> int (length Mr)"
      using "1.prems" by (simp add: algebra_simps)
    have a: "vec_put x i 0 = Inr ?x0"
      using True "1.prems" by (simp add: vec_put_in)
    have b: "rotatefunc_for_j 0 i ?x0 cacheX Mr nx = Inr ?x'"
      using True "1.prems" rows by (subst rotatefunc_for_j_ok) simp_all
    have ih: "rotatefunc_for_i (i + 1) ?x' cacheX Mr nx =
        Inr (map (\<lambda>k. if i + 1 \<le> int k \<and> int k < nx then ?row k else ?x' ! k) [0..<length ?x'])"
      using "1.IH" [OF True a b] "1.prems" by simp
    have "rotatefunc_for_i i x cacheX Mr nx = rotatefunc_for_i (i + 1) ?x' cacheX Mr nx"
      by (subst rotatefunc_for_i.simps) (simp add: True a b)
    also note ih
    also have "map (\<lambda>k. if i + 1 \<le> int k \<and> int k < nx then ?row k else ?x' ! k) [0..<length ?x'] =
       map (\<lambda>k. if i \<le> int k \<and> int k < nx then ?row k else x ! k) [0..<length x]"
      using True "1.prems" by (auto intro!: nth_equalityI simp: nth_list_update)
    finally show ?thesis .
  qed
qed


lemma shiftfunc_for_fail:
  "i < nx \<Longrightarrow> int (length x) < nx \<or> int (length Os) < nx \<Longrightarrow>
   shiftfunc_for i x Os nx = Inl Out_of_range"
proof (induction i x Os nx rule: shiftfunc_for.induct)
  case (1 i x Os nx)
  show ?case
  proof (cases "0 \<le> i \<and> i < int (length x) \<and> i < int (length Os)")
    case False
    with "1.prems" show ?thesis
      by (subst shiftfunc_for.simps) (auto simp: vec_at_def vec_put_def)
  next
    case True
    let ?x' = "x[nat i := x ! nat i - Os ! nat i]"
    have a: "vec_at x i = Inr (x ! nat i)" and b: "vec_at Os i = Inr (Os ! nat i)"
      and c: "vec_put x i (x ! nat i - Os ! nat i) = Inr ?x'"
      using True by (simp_all add: vec_at_in vec_put_in)
    have next_it: "i + 1 < nx" using True "1.prems" by auto
    have "shiftfunc_for (i + 1) ?x' Os nx = Inl Out_of_range"
      using "1.IH" [OF "1.prems"(1) a b c next_it] "1.prems"(2) by simp
    then show ?thesis
      by (subst shiftfunc_for.simps) (simp add: "1.prems" a b c)
  qed
qed

lemma sr_func_for_fail:
  "i < nx \<Longrightarrow> int (length x) < nx \<Longrightarrow> sr_func_for i x sh_rate nx = Inl Out_of_range"
proof (induction i x sh_rate nx rule: sr_func_for.induct)
  case (1 i x sh_rate nx)
  show ?case
  proof (cases "0 \<le> i \<and> i < int (length x)")
    case False
    with "1.prems" show ?thesis
      by (subst sr_func_for.simps) (auto simp: vec_at_def vec_put_def)
  next
    case True
    let ?x' = "x[nat i := x ! nat i * sh_rate]"
    have a: "vec_at x i = Inr (x ! nat i)"
      and c: "vec_put x i (x ! nat i * sh_rate) = Inr ?x'"
      using True by (simp_all add: vec_at_in vec_put_in)
    have next_it: "i + 1 < nx" using True "1.prems" by auto
    have "sr_func_for (i + 1) ?x' sh_rate nx = Inl Out_of_range"
      using "1.IH" [OF "1.prems"(1) a c next_it] "1.prems"(2) by simp
    then show ?thesis
      by (subst sr_func_for.simps) (simp add: "1.prems" a c)
  qed
qed

lemma rotatefunc_for_j_fail:
  "j < nx \<Longrightarrow> 0 \<le> i \<Longrightarrow> int (length cacheX) < nx \<or> int (length Mr) < i * nx + nx \<Longrightarrow>
   rotatefunc_for_j j i x cacheX Mr nx = Inl Out_of_range"
proof (induction j i x cacheX Mr nx rule: rotatefunc_for_j.induct)
  case (1 j i x cacheX Mr nx)
  show ?case
  proof (cases "i < int (length x) \<and> 0 \<le> j \<and> j < int (length cacheX) \<and> i * nx + j < int (length Mr)")
    case False
    with "1.prems" show ?thesis
      by (subst rotatefunc_for_j.simps) (auto simp: vec_at_def vec_put_def)
  next
    case True
    let ?m = "Mr ! nat (i * nx + j)"
    let ?x' = "x[nat i := x ! nat i + cacheX ! nat j * ?m]"
    have "0 \<le> i * nx" using "1.prems" True by simp
    then have nn: "0 \<le> i * nx + j" using True by simp
    have a: "vec_at x i = Inr (x ! nat i)"
      and b: "vec_at cacheX j = Inr (cacheX ! nat j)"
      and c: "vec_at Mr (i * nx + j) = Inr ?m"
      and d: "vec_put x i (x ! nat i + cacheX ! nat j * ?m) = Inr ?x'"
      using True "1.prems" nn by (simp_all add: vec_at_in vec_put_in)
    have next_it: "j + 1 < nx" using True "1.prems" by auto
    have "rotatefunc_for_j (j + 1) i ?x' cacheX Mr nx = Inl Out_of_range"
      using "1.IH" [OF "1.prems"(1) a b c d next_it] "1.prems" by simp
    then show ?thesis
      by (subst rotatefunc_for_j.simps) (simp add: "1.prems" a b c d)
  qed
qed

lemma rotatefunc_for_i_fail:
  "i < nx \<Longrightarrow> 0 \<le> i \<Longrightarrow>
   int (length x) < nx \<or> int (length cacheX) < nx \<or> int (length Mr) < nx * nx \<Longrightarrow>
   rotatefunc_for_i i x cacheX Mr nx = Inl Out_of_range"
proof (induction i x cacheX Mr nx rule: rotatefunc_for_i.induct)
  case (1 i x cacheX Mr nx)
  let ?x0 = "x[nat i := 0]"
  show ?case
  proof (cases "i < int (length x)")
    case False
    with "1.prems" show ?thesis
      by (subst rotatefunc_for_i.simps) (auto simp: vec_put_def)
  next
    case True
    have a: "vec_put x i 0 = Inr ?x0"
      using True "1.prems" by (simp add: vec_put_in)
    have pos: "0 < nx" using "1.prems" by simp
    show ?thesis
    proof (cases "int (length cacheX) < nx \<or> int (length Mr) < i * nx + nx")
      case True
      have "rotatefunc_for_j 0 i ?x0 cacheX Mr nx = Inl Out_of_range"
        using pos "1.prems"(2) True by (rule rotatefunc_for_j_fail)
      then show ?thesis
        by (subst rotatefunc_for_i.simps) (simp add: "1.prems" a)
    next
      case False
      let ?x' = "?x0[nat i := ?x0 ! nat i +
            (\<Sum>k\<leftarrow>[nat 0..<nat nx]. cacheX ! k * Mr ! (nat i * nat nx + k))]"
      have b: "rotatefunc_for_j 0 i ?x0 cacheX Mr nx = Inr ?x'"
        using False \<open>i < int (length x)\<close> "1.prems" by (intro rotatefunc_for_j_ok) simp_all
      have "i * nx + nx = (i + 1) * nx" by (simp add: algebra_simps)
      moreover have "i + 1 = nx \<Longrightarrow> (i + 1) * nx = nx * nx" by simp
      ultimately have next_it: "i + 1 < nx"
        using False \<open>i < int (length x)\<close> "1.prems" by (cases "i + 1 = nx") auto
      have "rotatefunc_for_i (i + 1) ?x' cacheX Mr nx = Inl Out_of_range"
        using "1.IH" [OF "1.prems"(1) a b next_it] "1.prems" by simp
      then show ?thesis
        by (subst rotatefunc_for_i.simps) (simp add: "1.prems" a b)
    qed
  qed
qed


lemma length_spec_shift [simp]: "length (spec_shift x Os nx) = length x"
  by (simp add: spec_shift_def)

lemma length_spec_scale [simp]: "length (spec_scale x sh_rate nx) = length x"
  by (simp add: spec_scale_def)

lemma length_spec_rotate [simp]: "length (spec_rotate x Mr nx) = length x"
  by (simp add: spec_rotate_def)

lemma length_spec_sr [simp]: "length (spec_sr x Os Mr sh_rate s_flag r_flag nx) = length x"
  by (simp add: spec_sr_def Let_def)

lemma shiftfunc_ok:
  "nx \<le> int (length x) \<Longrightarrow> nx \<le> int (length Os) \<Longrightarrow> shiftfunc x Os nx = Inr (spec_shift x Os nx)"
  by (simp add: shiftfunc_def spec_shift_def shiftfunc_for_ok)

lemma scale_ok:
  "nx \<le> int (length x) \<Longrightarrow> sr_func_for 0 x sh_rate nx = Inr (spec_scale x sh_rate nx)"
  by (simp add: spec_scale_def sr_func_for_ok)

lemma rotatefunc_ok:
  "nx \<le> int (length x) \<Longrightarrow> nx * nx \<le> int (length Mr) \<Longrightarrow>
   rotatefunc x Mr nx = Inr (spec_rotate x Mr nx)"
  by (simp add: rotatefunc_def spec_rotate_def rotatefunc_for_i_ok)

lemma sr_func_ok:
  "nx \<le> int (length x) \<Longrightarrow> (s_flag \<longrightarrow> nx \<le> int (length Os)) \<Longrightarrow>
   (r_flag \<longrightarrow> nx * nx \<le> int (length Mr)) \<Longrightarrow>
   sr_func x Os Mr sh_rate s_flag r_flag nx = Inr (spec_sr x Os Mr sh_rate s_flag r_flag nx)"
  by (simp add: sr_func_def spec_sr_def shiftfunc_ok scale_ok rotatefunc_ok)

lemma shiftfunc_fail:
  "int (length x) < nx \<or> int (length Os) < nx \<Longrightarrow> shiftfunc x Os nx = Inl Out_of_range"
  unfolding shiftfunc_def by (rule shiftfunc_for_fail) auto

lemma rotatefunc_fail:
  "0 < nx \<Longrightarrow> int (length x) < nx \<or> int (length Mr) < nx * nx \<Longrightarrow>
   rotatefunc x Mr nx = Inl Out_of_range"
  unfolding rotatefunc_def Let_def by (rule rotatefunc_for_i_fail) auto

lemma sr_func_fail:
  assumes "0 < nx"
    and "int (length x) < nx \<or> s_flag \<and> int (length Os) < nx \<or> r_flag \<and> int (length Mr) < nx * nx"
  shows "sr_func x Os Mr sh_rate s_flag r_flag nx = Inl Out_of_range"
proof (cases "int (length x) < nx")
  case True
  then have "shiftfunc x Os nx = Inl Out_of_range" "sr_func_for 0 x sh_rate nx = Inl Out_of_range"
    using assms(1) by (simp_all add: shiftfunc_fail sr_func_for_fail)
  then show ?thesis by (simp add: sr_func_def)
next
  case long: False
  show ?thesis
  proof (cases "s_flag \<and> int (length Os) < nx")
    case True
    then show ?thesis by (simp add: sr_func_def shiftfunc_fail)
  next
    case False
    with assms(2) long have r: "r_flag" "int (length Mr) < nx * nx" by auto
    from False long have s: "s_flag \<longrightarrow> nx \<le> int (length Os)" "nx \<le> int (length x)" by auto
    show ?thesis
      using r s assms(1) by (simp add: sr_func_def shiftfunc_ok scale_ok rotatefunc_fail)
  qed
qed

lemma take_spec_shift: "take (nat nx) (spec_shift x Os nx) = spec_shift (take (nat nx) x) Os nx"
  by (rule nth_equalityI) (auto simp: spec_shift_def)

lemma take_spec_scale:
  "take (nat nx) (spec_scale x sh_rate nx) = spec_scale (take (nat nx) x) sh_rate nx"
  by (rule nth_equalityI) (auto simp: spec_scale_def)

lemma take_spec_rotate:
  "nx \<le> int (length x) \<Longrightarrow>
   take (nat nx) (spec_rotate x Mr nx) = spec_rotate (take (nat nx) x) Mr nx"
  by (rule nth_equalityI) (auto simp: spec_rotate_def intro!: arg_cong [where f = sum_list])

lemma take_spec_sr:
  "nx \<le> int (length x) \<Longrightarrow>
   take (nat nx) (spec_sr x Os Mr sh_rate s_flag r_flag nx) =
     spec_sr (take (nat nx) x) Os Mr sh_rate s_flag r_flag nx"
  by (simp add: spec_sr_def Let_def take_spec_shift take_spec_scale take_spec_rotate)

lemma drop_spec_shift: "drop (nat nx) (spec_shift x Os nx) = drop (nat nx) x"
  by (rule nth_equalityI) (auto simp: spec_shift_def)

lemma drop_spec_scale: "drop (nat nx) (spec_scale x sh_rate nx) = drop (nat nx) x"
  by (rule nth_equalityI) (auto simp: spec_scale_def)

lemma drop_spec_rotate: "drop (nat nx) (spec_rotate x Mr nx) = drop (nat nx) x"
  by (rule nth_equalityI) (auto simp: spec_rotate_def)

lemma drop_spec_sr: "drop (nat nx) (spec_sr x Os Mr sh_rate s_flag r_flag nx) = drop (nat nx) x"
  by (simp add: spec_sr_def Let_def drop_spec_shift drop_spec_scale drop_spec_rotate)

subsection \<open>The order of the three steps\<close>

text \<open>
  C2. For every vector \<open>x\<close> of length at least \<open>nx\<close>, every shift vector \<open>Os\<close> of length at
  least \<open>nx\<close>, every matrix \<open>Mr\<close> of length at least \<open>nx * nx\<close> and all flags, \<open>sr_func\<close>
  returns without an exception, and its result is obtained in this fixed order: (1) when
  \<open>s_flag\<close> is set, \<open>x[i]\<close> becomes \<open>x[i] - Os[i]\<close>; (2) in every case \<open>x[i]\<close> becomes
  \<open>x[i] * sh_rate\<close>; (3) when \<open>r_flag\<close> is set, \<open>x[i]\<close> becomes the sum over \<open>j\<close> of
  \<open>x2[j] * Mr[i * nx + j]\<close>, where \<open>x2\<close> is the shifted and scaled vector of step (2): the
  rotation comes last. The steps touch the coordinates below \<open>nx\<close> only.
\<close>

theorem sr_func_fixed_order:
  "nx \<le> int (length x) \<Longrightarrow> nx \<le> int (length Os) \<Longrightarrow> nx * nx \<le> int (length Mr) \<Longrightarrow>
   sr_func x Os Mr sh_rate s_flag r_flag nx =
     Inr (let x1 = (if s_flag then spec_shift x Os nx else x);
              x2 = spec_scale x1 sh_rate nx
          in if r_flag then spec_rotate x2 Mr nx else x2)"
  using sr_func_ok [of nx x s_flag Os r_flag Mr sh_rate] by (simp add: spec_sr_def)

theorem sr_func_fixed_order_witness:
  "(2::int) \<le> int (length [3, 5, 7 :: real]) \<and> (2::int) \<le> int (length [1, 1 :: real]) \<and>
   (2::int) * 2 \<le> int (length [1, 2, 3, 4 :: real]) \<and>
   sr_func [3, 5, 7] [1, 1] [1, 2, 3, 4] 2 True True 2 = Inr [20, 44, 7] \<and>
   sr_func [3, 5, 7] [1, 1] [1, 2, 3, 4] 2 False True 2 = Inr [26, 58, 7] \<and>
   sr_func [3, 5, 7] [1, 1] [1, 2, 3, 4] 2 True False 2 = Inr [4, 8, 7]"
  using sr_func_fixed_order [of 2 "[3, 5, 7]" "[1, 1]" "[1, 2, 3, 4]" 2 True True]
    sr_func_fixed_order [of 2 "[3, 5, 7]" "[1, 1]" "[1, 2, 3, 4]" 2 False True]
    sr_func_fixed_order [of 2 "[3, 5, 7]" "[1, 1]" "[1, 2, 3, 4]" 2 True False]
  by (simp add: spec_shift_def spec_scale_def spec_rotate_def upt_rec)

subsection \<open>No rotation, no matrix\<close>

text \<open>
  C3. When \<open>r_flag\<close> is false, \<open>sr_func\<close> does not depend on the matrix: for every vector
  \<open>x\<close> of length at least \<open>nx\<close> (and a shift vector of length at least \<open>nx\<close> when \<open>s_flag\<close> is
  set) and every two matrices \<open>Mr1\<close>, \<open>Mr2\<close> of any length, even empty, the result is the
  same, so that no entry of the matrix is read; and each of the \<open>nx\<close> coordinates of the
  result is \<open>sh_rate * (x[i] - Os[i])\<close> when \<open>s_flag\<close> is set and \<open>sh_rate * x[i]\<close> otherwise
  (the coordinates from \<open>nx\<close> on are those of \<open>x\<close>).
\<close>

theorem sr_func_no_rotation:
  "nx \<le> int (length x) \<Longrightarrow> (s_flag \<longrightarrow> nx \<le> int (length Os)) \<Longrightarrow>
   sr_func x Os Mr1 sh_rate s_flag False nx = sr_func x Os Mr2 sh_rate s_flag False nx \<and>
   (\<exists>y. sr_func x Os Mr1 sh_rate s_flag False nx = Inr y \<and> length y = length x \<and>
      (\<forall>i<length x. y ! i =
         (if int i < nx then sh_rate * (if s_flag then x ! i - Os ! i else x ! i) else x ! i)))"
proof (intro conjI)
  show "sr_func x Os Mr1 sh_rate s_flag False nx = sr_func x Os Mr2 sh_rate s_flag False nx"
    by (simp add: sr_func_def split: sum.splits)
next
  assume "nx \<le> int (length x)" "s_flag \<longrightarrow> nx \<le> int (length Os)"
  then have "sr_func x Os Mr1 sh_rate s_flag False nx = Inr (spec_sr x Os Mr1 sh_rate s_flag False nx)"
    by (intro sr_func_ok) simp_all
  moreover have "\<forall>i<length x. spec_sr x Os Mr1 sh_rate s_flag False nx ! i =
         (if int i < nx then sh_rate * (if s_flag then x ! i - Os ! i else x ! i) else x ! i)"
    by (simp add: spec_sr_def spec_scale_def spec_shift_def Let_def)
  ultimately show "\<exists>y. sr_func x Os Mr1 sh_rate s_flag False nx = Inr y \<and> length y = length x \<and>
      (\<forall>i<length x. y ! i =
         (if int i < nx then sh_rate * (if s_flag then x ! i - Os ! i else x ! i) else x ! i))"
    by simp
qed

theorem sr_func_no_rotation_witness:
  "(2::int) \<le> int (length [3, 5, 7 :: real]) \<and> (2::int) \<le> int (length [1, 1 :: real]) \<and>
   sr_func [3, 5, 7] [1, 1] [] 2 True False 2 = sr_func [3, 5, 7] [1, 1] [1, 2, 3, 4] 2 True False 2 \<and>
   sr_func [3, 5, 7] [1, 1] [] 2 True False 2 = Inr [2 * (3 - 1), 2 * (5 - 1), 7]"
proof -
  have h1: "(2::int) \<le> int (length [3, 5, 7 :: real])"
    and h2: "True \<longrightarrow> (2::int) \<le> int (length [1, 1 :: real])"
    by simp_all
  from sr_func_no_rotation [OF h1 h2, of "[]" 2 "[1, 2, 3, 4]"]
  obtain y where same:
      "sr_func [3, 5, 7] [1, 1] [] 2 True False 2 = sr_func [3, 5, 7] [1, 1] [1, 2, 3, 4] 2 True False 2"
    and y: "sr_func [3, 5, 7] [1, 1] [] 2 True False 2 = Inr y" "length y = length [3, 5, 7 :: real]"
      "\<forall>i<length [3, 5, 7 :: real]. y ! i =
          (if int i < 2 then 2 * (if True then [3, 5, 7] ! i - [1, 1] ! i else [3, 5, 7] ! i)
           else [3, 5, 7] ! i)"
    by blast
  from y(2) obtain a b c where abc: "y = [a, b, c]"
    by (auto simp: length_Suc_conv)
  from y(3) have "y = [2 * (3 - 1), 2 * (5 - 1), 7]"
    by (simp add: abc All_less_Suc)
  with h1 h2 same y(1) show ?thesis by simp
qed

subsection \<open>Every access is checked\<close>

text \<open>
  C10. \<open>shiftfunc\<close>, \<open>rotatefunc\<close> and \<open>sr_func\<close> reach their vectors through \<open>at\<close> only.
  When \<open>x\<close> has at least \<open>nx\<close> elements, \<open>Os\<close> at least \<open>nx\<close> (where the shift is applied) and
  \<open>Mr\<close> at least \<open>nx * nx\<close> (where the rotation is applied), every access is in range: the
  function returns a vector and never the exception. Conversely, with a shift table
  shorter than \<open>nx\<close>, or a matrix shorter than \<open>nx * nx\<close> for a positive \<open>nx\<close>, the function
  ends in \<open>std::out_of_range\<close>. The elements of \<open>x\<close> from index \<open>nx\<close> on are not used and
  not changed: the result keeps them, and the first \<open>nx\<close> coordinates of the result are
  what \<open>sr_func\<close> returns on the first \<open>nx\<close> coordinates of \<open>x\<close> alone.
\<close>

theorem transforms_bounds_checked:
  "(nx \<le> int (length x) \<and> nx \<le> int (length Os) \<longrightarrow>
      (\<exists>y. shiftfunc x Os nx = Inr y \<and> length y = length x \<and>
           drop (nat nx) y = drop (nat nx) x)) \<and>
   (int (length Os) < nx \<longrightarrow> shiftfunc x Os nx = Inl Out_of_range) \<and>
   (nx \<le> int (length x) \<and> nx * nx \<le> int (length Mr) \<longrightarrow>
      (\<exists>y. rotatefunc x Mr nx = Inr y \<and> length y = length x \<and>
           drop (nat nx) y = drop (nat nx) x)) \<and>
   (0 < nx \<and> int (length Mr) < nx * nx \<longrightarrow> rotatefunc x Mr nx = Inl Out_of_range) \<and>
   (nx \<le> int (length x) \<and> (s_flag \<longrightarrow> nx \<le> int (length Os)) \<and>
    (r_flag \<longrightarrow> nx * nx \<le> int (length Mr)) \<longrightarrow>
      (\<exists>y. sr_func x Os Mr sh_rate s_flag r_flag nx = Inr y \<and> length y = length x \<and>
           drop (nat nx) y = drop (nat nx) x \<and>
           sr_func (take (nat nx) x) Os Mr sh_rate s_flag r_flag nx = Inr (take (nat nx) y))) \<and>
   (0 < nx \<and> (s_flag \<and> int (length Os) < nx \<or> r_flag \<and> int (length Mr) < nx * nx) \<longrightarrow>
      sr_func x Os Mr sh_rate s_flag r_flag nx = Inl Out_of_range)"
proof (intro conjI impI)
  assume "nx \<le> int (length x) \<and> nx \<le> int (length Os)"
  then show "\<exists>y. shiftfunc x Os nx = Inr y \<and> length y = length x \<and>
      drop (nat nx) y = drop (nat nx) x"
    by (simp add: shiftfunc_ok drop_spec_shift)
next
  assume "int (length Os) < nx"
  then show "shiftfunc x Os nx = Inl Out_of_range"
    by (simp add: shiftfunc_fail)
next
  assume "nx \<le> int (length x) \<and> nx * nx \<le> int (length Mr)"
  then show "\<exists>y. rotatefunc x Mr nx = Inr y \<and> length y = length x \<and>
      drop (nat nx) y = drop (nat nx) x"
    by (simp add: rotatefunc_ok drop_spec_rotate)
next
  assume "0 < nx \<and> int (length Mr) < nx * nx"
  then show "rotatefunc x Mr nx = Inl Out_of_range"
    by (simp add: rotatefunc_fail)
next
  assume pre: "nx \<le> int (length x) \<and> (s_flag \<longrightarrow> nx \<le> int (length Os)) \<and>
    (r_flag \<longrightarrow> nx * nx \<le> int (length Mr))"
  let ?y = "spec_sr x Os Mr sh_rate s_flag r_flag nx"
  have whole: "sr_func x Os Mr sh_rate s_flag r_flag nx = Inr ?y"
    using pre by (intro sr_func_ok) simp_all
  have "nx \<le> int (length (take (nat nx) x))"
    using pre by (auto simp: min_def)
  then have "sr_func (take (nat nx) x) Os Mr sh_rate s_flag r_flag nx =
      Inr (spec_sr (take (nat nx) x) Os Mr sh_rate s_flag r_flag nx)"
    using pre by (intro sr_func_ok) simp_all
  then have prefix: "sr_func (take (nat nx) x) Os Mr sh_rate s_flag r_flag nx = Inr (take (nat nx) ?y)"
    using pre by (simp add: take_spec_sr)
  show "\<exists>y. sr_func x Os Mr sh_rate s_flag r_flag nx = Inr y \<and> length y = length x \<and>
      drop (nat nx) y = drop (nat nx) x \<and>
      sr_func (take (nat nx) x) Os Mr sh_rate s_flag r_flag nx = Inr (take (nat nx) y)"
    using whole prefix by (simp add: drop_spec_sr)
next
  assume "0 < nx \<and> (s_flag \<and> int (length Os) < nx \<or> r_flag \<and> int (length Mr) < nx * nx)"
  then show "sr_func x Os Mr sh_rate s_flag r_flag nx = Inl Out_of_range"
    by (intro sr_func_fail) auto
qed

theorem transforms_bounds_checked_witness:
  "(\<exists>y. shiftfunc [3, 5, 7] [1, 1] 2 = Inr y \<and> length y = 3 \<and> drop 2 y = [7]) \<and>
   shiftfunc [3, 5, 7] [1] 2 = Inl Out_of_range \<and>
   (\<exists>y. rotatefunc [3, 5, 7] [1, 2, 3, 4] 2 = Inr y \<and> length y = 3 \<and> drop 2 y = [7]) \<and>
   rotatefunc [3, 5, 7] [1, 2, 3] 2 = Inl Out_of_range \<and>
   (\<exists>y. sr_func [3, 5, 7] [1, 1] [1, 2, 3, 4] 2 True True 2 = Inr y \<and> length y = 3 \<and>
        drop 2 y = [7] \<and> sr_func [3, 5] [1, 1] [1, 2, 3, 4] 2 True True 2 = Inr (take 2 y)) \<and>
   sr_func [3, 5, 7] [1] [1, 2, 3, 4] 2 True True 2 = Inl Out_of_range \<and>
   sr_func [3, 5, 7] [1, 1] [1, 2, 3] 2 True True 2 = Inl Out_of_range"
  using transforms_bounds_checked [of 2 "[3, 5, 7]" "[1, 1]" "[1, 2, 3, 4]" True True 2]
    transforms_bounds_checked [of 2 "[3, 5, 7]" "[1]" "[1, 2, 3]" True True 2]
    transforms_bounds_checked [of 2 "[3, 5, 7]" "[1]" "[1, 2, 3, 4]" True True 2]
    transforms_bounds_checked [of 2 "[3, 5, 7]" "[1, 1]" "[1, 2, 3]" True True 2]
  by (simp add: numeral_3_eq_3)

section \<open>Properties of the loaders\<close>

subsection \<open>The reading loop\<close>

lemma read_for_not_good:
  "\<not> good fpt \<Longrightarrow> fst (read_for conv i Size fpt v stale) = v"
  by (subst read_for.simps) (simp add: peek_def)

lemma delivered_get_double:
  "cs \<noteq> [] \<Longrightarrow> get_double cs = (d, rest, eof, fail) \<Longrightarrow>
   delivered stale cs =
     (case d of Some a \<Rightarrow> a | None \<Rightarrow> stale) # (if eof \<or> fail then [] else delivered stale rest)"
  by (induction stale cs rule: delivered.induct) auto

lemma read_for_good:
  "good fpt \<Longrightarrow>
   fst (read_for conv i Size fpt v stale) =
     v @ map conv (take (nat (Size - i)) (delivered stale (unread fpt)))"
proof (induction conv i Size fpt v stale rule: read_for.induct)
  case (1 conv i Size fpt v stale)
  show ?case
  proof (cases "i < Size")
    case False
    then show ?thesis by (subst read_for.simps) simp
  next
    case True
    show ?thesis
    proof (cases "unread fpt")
      case Nil
      with True "1.prems" show ?thesis
        by (subst read_for.simps) (simp add: peek_def)
    next
      case (Cons c rest)
      obtain d rest' eof fail where gd: "get_double (unread fpt) = (d, rest', eof, fail)"
        by (cases "get_double (unread fpt)") auto
      let ?fpt2 = "\<lparr>unread = rest', eofbit = eof, failbit = fail\<rparr>"
      let ?a = "case d of Some a \<Rightarrow> a | None \<Rightarrow> stale"
      have pk: "peek fpt = (Some c, fpt)"
        using "1.prems" Cons by (simp add: peek_def)
      have ex: "extract_double fpt = (d, ?fpt2)"
        using "1.prems" gd by (simp add: extract_double_def)
      have step: "read_for conv i Size fpt v stale =
          read_for conv (i + 1) Size ?fpt2 (v @ [conv ?a]) stale"
        by (subst read_for.simps) (simp add: True pk ex)
      have dl: "delivered stale (unread fpt) =
          ?a # (if eof \<or> fail then [] else delivered stale rest')"
        using Cons gd by (intro delivered_get_double) simp_all
      have "nat (Size - i) = Suc (nat (Size - (i + 1)))"
        using True by linarith
      then have tk: "take (nat (Size - i)) (?a # xs) = ?a # take (nat (Size - (i + 1))) xs" for xs
        by simp
      show ?thesis
      proof (cases "eof \<or> fail")
        case True
        then have "\<not> good ?fpt2" by (auto simp: good_def)
        then show ?thesis
          by (simp add: step read_for_not_good dl tk True)
      next
        case False
        then have g2: "good ?fpt2" by (simp add: good_def)
        have "fst (read_for conv (i + 1) Size ?fpt2 (v @ [conv ?a]) stale) =
            (v @ [conv ?a]) @ map conv (take (nat (Size - (i + 1))) (delivered stale (unread ?fpt2)))"
          using "1.IH" [OF \<open>i < Size\<close> pk [symmetric] refl ex [symmetric] g2] .
        then show ?thesis
          by (simp add: step dl tk False)
      qed
    qed
  qed
qed

lemma delivered_numerals:
  "Other \<notin> set cs \<Longrightarrow>
   delivered stale cs = numerals cs @ (if cs \<noteq> [] \<and> last cs = Space then [stale] else [])"
  by (induction stale cs rule: delivered.induct) auto

lemma read_for_open:
  "fst (read_for conv 0 Size (ifstream_open fs FileName) v stale) =
     v @ map conv (take (nat Size)
           (case fs FileName of None \<Rightarrow> [] | Some cs \<Rightarrow> delivered stale cs))"
proof (cases "fs FileName")
  case None
  then have "\<not> good (ifstream_open fs FileName)"
    by (simp add: ifstream_open_def good_def)
  then show ?thesis
    by (simp add: read_for_not_good None)
next
  case (Some cs)
  then have "good (ifstream_open fs FileName)" "unread (ifstream_open fs FileName) = cs"
    by (simp_all add: ifstream_open_def good_def)
  then show ?thesis
    by (simp add: read_for_good Some)
qed

lemma failbit_open: "failbit (ifstream_open fs FileName) = (fs FileName = None)"
  by (simp add: ifstream_open_def split: option.splits)

lemma loadMatrixData_eq:
  "loadMatrixData fs Mr dataPath dim' fn cecVersion oob stale =
     (Mr @ take (nat (MatrixSize dim' fn cecVersion oob))
         (case fs (M_FileName dataPath cecVersion fn dim') of
            None \<Rightarrow> [] | Some cs \<Rightarrow> delivered stale cs),
      if fs (M_FileName dataPath cecVersion fn dim') = None
      then [M_FileName dataPath cecVersion fn dim', ''Error: Cannot open input file for reading'']
      else [])"
  by (simp add: loadMatrixData_def Let_def read_for_open failbit_open)

lemma loadOShiftData_eq:
  "loadOShiftData fs Os dataPath dim' fn cecVersion oob stale =
     (if fn < fst (OShift_funcTreshold_coeff cecVersion fn oob)
      then Os @ take (nat (OShiftSize dim' fn cecVersion oob))
         (case fs (shift_data_FileName dataPath cecVersion fn) of
            None \<Rightarrow> [] | Some cs \<Rightarrow> delivered stale cs)
      else Os,
      if fs (shift_data_FileName dataPath cecVersion fn) = None
      then [''Error: Cannot open input file for reading'']
      else [])"
  by (simp add: loadOShiftData_def Let_def read_for_open failbit_open)

lemma loadShuffleData_eq:
  "loadShuffleData fs SS dataPath dim' fn cecVersion oob stale =
     (SS @ map double_to_int (take (nat (ShuffleSize dim' fn cecVersion oob))
         (case fs (shuffle_data_FileName dataPath cecVersion fn dim') of
            None \<Rightarrow> [] | Some cs \<Rightarrow> delivered stale cs)),
      if fs (shuffle_data_FileName dataPath cecVersion fn dim') = None
      then [''Error: Cannot open input file for reading'']
      else [])"
  by (simp add: loadShuffleData_def Let_def read_for_open failbit_open)

lemma loadMatrixData_numerals:
  "fs (M_FileName dataPath cecVersion fn dim') = Some cs \<Longrightarrow> Other \<notin> set cs \<Longrightarrow>
   cs = [] \<or> last cs \<noteq> Space \<Longrightarrow>
   loadMatrixData fs Mr dataPath dim' fn cecVersion oob stale =
     (Mr @ take (nat (MatrixSize dim' fn cecVersion oob)) (numerals cs), [])"
  by (auto simp: loadMatrixData_eq delivered_numerals)

subsection \<open>Short files\<close>

text \<open>
  C4. Each loader (\<open>loadMatrixData\<close>, \<open>loadShuffleData\<close>, and \<open>loadOShiftData\<close> below its
  threshold) is claimed to append exactly \<open>min (S, m)\<close> values, \<open>S\<close> the expected count and
  \<open>m\<close> the number of values left in the file. The lemma \<open>loadMatrixData_numerals\<close> above
  gives this for a file that ends right after its last numeral. For a file that ends with
  a newline, as text files do, and holds fewer than \<open>S\<close> values it fails: \<open>peek\<close> sees
  the newline, not the end of the file, the extraction then stores nothing, and the loop
  pushes the unset local as one more element. With \<open>dim = 2\<close>, \<open>fn = 1\<close> and version 2022
  the matrix loader expects 4 values, and from the three values \<open>1 2 3\<close> and a newline it
  appends four elements; the two other loaders expect 2 values (\<open>fn = 6\<close> for the
  shuffle table) and append two elements from a file holding one.
\<close>

theorem loaders_short_file_extra_element:
  "MatrixSize 2 1 2022 oob = 4 \<and>
   loadMatrixData (\<lambda>FileName. Some [Numeral 1, Space, Numeral 2, Space, Numeral 3, Space])
      [] ''data'' 2 1 2022 oob stale = ([1, 2, 3, stale], []) \<and>
   OShiftSize 2 1 2022 oob = 2 \<and>
   loadOShiftData (\<lambda>FileName. Some [Numeral 1, Space]) [] ''data'' 2 1 2022 oob stale =
      ([1, stale], []) \<and>
   ShuffleSize 2 6 2022 oob = 2 \<and>
   loadShuffleData (\<lambda>FileName. Some [Numeral 1, Space]) [] ''data'' 2 6 2022 oob stale =
      ([1, double_to_int stale], [])"
  by (simp add: loadMatrixData_eq loadOShiftData_eq loadShuffleData_eq MatrixSize_def
      Matrix_funcTreshold_coeff_def OShiftSize_def OShift_funcTreshold_coeff_def
      ShuffleSize_def shuffleFlag_def double_to_int_def)

subsection \<open>Missing files\<close>

lemma M_FileName_example: "M_FileName ''data'' 2022 1 2 = ''data/cec2022/M_1_D2.txt''"
  by code_simp

text \<open>
  C5, as claimed: when a table file is missing, the loader signals the error to its caller
  and the creation of the problem is aborted. It is not so: with no file at all,
  \<open>loadMatrixData\<close> and \<open>loadOShiftData\<close> return as they always do, the vector still
  empty, and the failure is only a line on the standard streams.
\<close>

theorem missing_file_not_signalled_counterexample:
  "loadMatrixData (\<lambda>FileName. None) [] ''data'' 2 1 2022 0 0 =
     ([], [''data/cec2022/M_1_D2.txt'', ''Error: Cannot open input file for reading'']) \<and>
   loadOShiftData (\<lambda>FileName. None) [] ''data'' 2 1 2022 0 0 =
     ([], [''Error: Cannot open input file for reading''])"
  by (simp add: loadMatrixData_eq loadOShiftData_eq M_FileName_example)

text \<open>
  C5, amended: when the file of a loader cannot be opened, the loader writes a diagnostic
  (the file name as well, for \<open>loadMatrixData\<close>), returns normally and appends nothing:
  the caller receives the vector as it passed it, empty if it was empty, and nothing
  else tells it that the file was missing.
\<close>

theorem missing_file_loader_returns:
  "(fs (M_FileName dataPath cecVersion fn dim') = None \<longrightarrow>
      loadMatrixData fs Mr dataPath dim' fn cecVersion oob stale =
        (Mr, [M_FileName dataPath cecVersion fn dim',
              ''Error: Cannot open input file for reading''])) \<and>
   (fs (shift_data_FileName dataPath cecVersion fn) = None \<longrightarrow>
      loadOShiftData fs Os dataPath dim' fn cecVersion oob stale =
        (Os, [''Error: Cannot open input file for reading''])) \<and>
   (fs (shuffle_data_FileName dataPath cecVersion fn dim') = None \<longrightarrow>
      loadShuffleData fs SS dataPath dim' fn cecVersion oob stale =
        (SS, [''Error: Cannot open input file for reading'']))"
  by (simp add: loadMatrixData_eq loadOShiftData_eq loadShuffleData_eq)

theorem missing_file_loader_returns_witness:
  "loadMatrixData (\<lambda>FileName. None) [5] ''cec_data'' 10 3 2022 0 0 =
     ([5], [M_FileName ''cec_data'' 2022 3 10, ''Error: Cannot open input file for reading'']) \<and>
   loadOShiftData (\<lambda>FileName. None) [] ''cec_data'' 10 3 2022 0 0 =
     ([], [''Error: Cannot open input file for reading'']) \<and>
   loadShuffleData (\<lambda>FileName. None) [] ''cec_data'' 10 3 2022 0 0 =
     ([], [''Error: Cannot open input file for reading''])"
  using missing_file_loader_returns [of "\<lambda>FileName. None" "''cec_data''" 2022 3 10 "[5]" 0 0 "[]" "[]"]
  by simp

subsection \<open>Shift tables at and above the threshold\<close>

text \<open>
  C9. For every version and every function number \<open>fn\<close> not below the threshold of the
  version (version 2022 from \<open>fn = 9\<close> on; version 2015, whose threshold stays 0, for every
  \<open>fn \<ge> 0\<close>), the expected size of the shift table is \<open>coeff * dim\<close>, but \<open>loadOShiftData\<close>
  appends nothing to \<open>Os\<close>, whatever the file holds: the only loop stands in the branch
  \<open>fn < funcTreshold\<close>. The caller receives the vector unchanged.
\<close>

theorem loadOShiftData_reads_nothing:
  "fst (OShift_funcTreshold_coeff cecVersion fn oob) \<le> fn \<Longrightarrow>
   OShiftSize dim' fn cecVersion oob = snd (OShift_funcTreshold_coeff cecVersion fn oob) * dim' \<and>
   fst (loadOShiftData fs Os dataPath dim' fn cecVersion oob stale) = Os"
  by (cases "OShift_funcTreshold_coeff cecVersion fn oob") (simp add: loadOShiftData_eq OShiftSize_def)

theorem loadOShiftData_reads_nothing_witness:
  "fst (OShift_funcTreshold_coeff 2022 9 0) \<le> 9 \<and>
   OShiftSize 2 9 2022 0 = 24 \<and>
   fst (loadOShiftData (\<lambda>FileName. Some [Numeral 1, Space, Numeral 2]) [] ''data'' 2 9 2022 0 0) = [] \<and>
   fst (OShift_funcTreshold_coeff 2015 1 0) \<le> 1 \<and>
   fst (loadOShiftData (\<lambda>FileName. Some [Numeral 1, Space, Numeral 2]) [] ''data'' 2 1 2015 0 0) = []"
  using loadOShiftData_reads_nothing [of 2022 9 0 2 "\<lambda>FileName. Some [Numeral 1, Space, Numeral 2]" "[]" "''data''" 0]
    loadOShiftData_reads_nothing [of 2015 1 0 2 "\<lambda>FileName. Some [Numeral 1, Space, Numeral 2]" "[]" "''data''" 0]
  by (simp add: OShift_funcTreshold_coeff_def)

section \<open>Properties of the query schema\<close>

text \<open>What the schema does require: an object with a member \<open>query_type\<close> that is one of
  the three strings.\<close>

lemma IOHquery_requires_query_type:
  assumes "valid IOHquery q"
  shows "\<exists>ms v. q = JObject ms \<and> map_of ms ''query_type'' = Some (JString v) \<and>
     (v = ''call'' \<or> v = ''new_run'' \<or> v = ''stop'')"
proof -
  let ?qt = "Schema [KType T_string, KEnum [JString ''call'', JString ''new_run'', JString ''stop'']]"
  from assms have ty: "has_type T_object q"
    and req: "valid_kw (KRequired [''query_type'']) q"
    by (simp_all add: IOHquery_def)
  from ty obtain ms where q: "q = JObject ms"
    by (cases q) simp_all
  from req q obtain w where w: "map_of ms ''query_type'' = Some w"
    by auto
  from assms q w have "valid ?qt w"
    by (simp add: IOHquery_def)
  then have "has_type T_string w" "w \<in> set [JString ''call'', JString ''new_run'', JString ''stop'']"
    by simp_all
  then obtain v where "w = JString v" "v = ''call'' \<or> v = ''new_run'' \<or> v = ''stop''"
    by (cases w) auto
  with q w show ?thesis by blast
qed

text \<open>The schema of the comments rejects a \<open>call\<close> query that has no \<open>solution\<close>, an empty
  one, or one that is not an array, and accepts the two examples of the file's header.\<close>

lemma IOHquery_as_commented_rejects:
  "\<not> valid IOHquery_as_commented (JObject [(''query_type'', JString ''call'')]) \<and>
   \<not> valid IOHquery_as_commented
        (JObject [(''query_type'', JString ''call''), (''solution'', JArray [])]) \<and>
   \<not> valid IOHquery_as_commented
        (JObject [(''query_type'', JString ''call''), (''solution'', JString ''none'')]) \<and>
   valid IOHquery_as_commented
        (JObject [(''query_type'', JString ''call''), (''solution'', JArray [JNumber 10, JNumber 10])]) \<and>
   valid IOHquery_as_commented (JObject [(''query_type'', JString ''stop'')])"
  by (simp add: IOHquery_as_commented_def)

text \<open>
  C8. A query is claimed to be accepted only with a \<open>query_type\<close> among \<open>call\<close>, \<open>new_run\<close>
  and \<open>stop\<close> (so it is: \<open>IOHquery_requires_query_type\<close>), and, when \<open>query_type\<close> is
  \<open>call\<close>, only with a \<open>solution\<close> that is an array of at least one number. The schema of
  the file does not ask for the second: it accepts the query \<open>{"query_type": "call"}\<close>,
  and a \<open>call\<close> query whose \<open>solution\<close> is the empty array or a string. Its \<open>if\<close> and
  \<open>then\<close> are entries of \<open>properties\<close>, which constrain members named \<open>if\<close> and \<open>then\<close>
  and nothing else.
\<close>

theorem IOHquery_accepts_call_without_solution:
  "valid IOHquery (JObject [(''query_type'', JString ''call'')]) \<and>
   valid IOHquery (JObject [(''query_type'', JString ''call''), (''solution'', JArray [])]) \<and>
   valid IOHquery (JObject [(''query_type'', JString ''call''), (''solution'', JString ''none'')])"
  by (simp add: IOHquery_def)


section \<open>Properties of the bias table\<close>

text \<open>
  C6. The objective bias of the continuous suites is looked up from a fixed table by the
  function number alone (the function has no instance argument): for a function number
  from 1 to 10 and a nonzero flag the result is the entry of that number in
  (100, 1100, 700, 1900, 1700, 1600, 2100, 2200, 2400, 2500), and with a zero flag it is 0,
  whatever the function number.
\<close>

theorem getFunctionBias_table:
  "1 \<le> fnNumber \<and> fnNumber \<le> 10 \<Longrightarrow>
     getFunctionBias biasFlag fnNumber oob =
       (if biasFlag \<noteq> 0
        then [100, 1100, 700, 1900, 1700, 1600, 2100, 2200, 2400, 2500] ! nat (fnNumber - 1)
        else 0)"
  by (simp add: getFunctionBias_def raw_index_def fnBiasDict_def)

theorem getFunctionBias_table_witness:
  "(1::int) \<le> 4 \<and> (4::int) \<le> 10 \<and> getFunctionBias 1 4 0 = 1900 \<and> getFunctionBias 0 4 0 = 0"
  using getFunctionBias_table [of 4 1 0] getFunctionBias_table [of 4 0 0]
  by simp

end
